theory Spec2Isabelle
  imports Main
begin

section \<open>The gather environments of hbaselines/envs/snn4hrl/envs.py\<close>

text \<open>
  The file defines \<open>AntGatherEnv\<close>, a subclass of rllab's \<open>GatherEnv\<close>, and two
  subclasses of it, \<open>SwimmerGatherEnv\<close> and \<open>SnakeGatherEnv\<close>, which override
  three class constants and nothing else.

  \<open>GatherEnv\<close> is a library class: its methods are parameters of the model. An instance
  is one Python object; the model keeps the two attributes that \<open>AntGatherEnv\<close>
  introduces (\<open>step_number\<close>, \<open>current_context\<close>) as fields of their own and
  every other attribute of the instance in the field \<open>base\<close>, the part the methods of
  \<open>GatherEnv\<close> read and write. A call of a base-class method is modelled where it
  returns: the wrapper has no exception handler, so an exception raised inside the base
  class leaves the wrapper's method at the call.
\<close>

subsection \<open>Python slices\<close>

text \<open>
  \<open>xs[i:]\<close> and \<open>xs[:j]\<close> on a one-dimensional sequence of length \<open>n\<close>: a
  negative bound counts from the end, and a bound outside \<open>0..n\<close> is clamped, never
  an error.
\<close>

definition slice_index :: "nat \<Rightarrow> int \<Rightarrow> nat" where
  "slice_index n i = (if i < 0 then nat (max 0 (int n + i)) else nat (min i (int n)))"

definition slice_from :: "'v list \<Rightarrow> int \<Rightarrow> 'v list" where
  "slice_from xs i = drop (slice_index (length xs) i) xs"

definition slice_upto :: "'v list \<Rightarrow> int \<Rightarrow> 'v list" where
  "slice_upto xs j = take (slice_index (length xs) j) xs"

subsection \<open>Python values\<close>

text \<open>
  A float is \<open>Finite m e\<close>, the number \<open>m * 2 ^ e\<close> with \<open>m\<close> odd (zero is
  \<open>Finite 0 0\<close>), an infinity or a NaN: \<open>10.\<close> is \<open>Finite 5 1\<close>.
  \<open>math.pi\<close> is the double \<open>884279719003555 * 2 ^ -48\<close>.
\<close>

datatype pyfloat = Finite int int | PosInf | NegInf | NaN

datatype 'x pyval = PyInt int | PyFloat pyfloat | PyObj 'x

datatype error = TypeError | ValueError

fun float_neg :: "pyfloat \<Rightarrow> pyfloat" where
  "float_neg (Finite m e) = Finite (- m) e"
| "float_neg PosInf = NegInf"
| "float_neg NegInf = PosInf"
| "float_neg NaN = NaN"

definition math_pi :: pyfloat where
  "math_pi = Finite 884279719003555 (- 48)"

text \<open>The product of two finite floats where no rounding happens, as in \<open>2. * math.pi\<close>.\<close>

fun float_mul_exact :: "pyfloat \<Rightarrow> pyfloat \<Rightarrow> pyfloat" where
  "float_mul_exact (Finite m e) (Finite m' e') = Finite (m * m') (e + e')"
| "float_mul_exact _ _ = NaN"

subsection \<open>gym.spaces.Box\<close>

text \<open>
  \<open>Box(low, high, shape=(n,), dtype)\<close> with scalar bounds: the bounds are broadcast to
  arrays of \<open>n\<close> elements; numpy raises ValueError for a negative dimension.
\<close>

datatype np_dtype = float32

record box =
  low :: "pyfloat list"
  high :: "pyfloat list"
  dtype :: np_dtype

definition Box :: "pyfloat \<Rightarrow> pyfloat \<Rightarrow> int \<Rightarrow> np_dtype \<Rightarrow> error + box" where
  "Box lo hi n dt =
     (if n < 0 then Inl ValueError
      else Inr \<lparr>low = replicate (nat n) lo, high = replicate (nat n) hi, dtype = dt\<rparr>)"

subsection \<open>Class constants\<close>

datatype model_class = AntEnv | SwimmerEnv | SnakeEnv

record class_consts =
  MODEL_CLASS :: model_class
  ORI_IND :: int
  HORIZON :: int

subsection \<open>The base class and the instance\<close>

text \<open>
  What the wrapper uses of \<open>GatherEnv\<close>: \<open>step\<close> and \<open>reset\<close>, which return a
  result and leave the base part of the instance changed, and the attributes
  \<open>n_bins\<close> (an integer: it is a slice bound) and \<open>robot_observation_space\<close>.
  What the wrapper expects of the base class, that \<open>n_bins\<close> is a positive number
  of sensor bins and that an observation ends with \<open>2 * n_bins\<close> sensor readings,
  is a hypothesis of the theorems that need it.
  The type \<open>'v\<close> is the type of an observation's elements, \<open>'r\<close> of a reward,
  \<open>'i\<close> of the values of the info dictionary, \<open>'w\<close> of the argument of \<open>reset\<close>.
\<close>

record ('b, 'a, 'v, 'r, 'i, 'w, 's, 'x) GatherEnv =
  super_init :: "'x pyval list \<Rightarrow> (string \<rightharpoonup> 'x pyval) \<Rightarrow> 'b"
  super_step :: "'b \<Rightarrow> 'a \<Rightarrow> ('v list \<times> 'r \<times> bool \<times> (string \<rightharpoonup> 'i)) \<times> 'b"
  super_reset :: "'b \<Rightarrow> 'w \<Rightarrow> 'v list \<times> 'b"
  self_n_bins :: "'b \<Rightarrow> int"
  self_robot_observation_space :: "'b \<Rightarrow> 's"

record ('b, 'v) env =
  base :: 'b
  step_number :: int
  current_context :: "'v list option"

subsection \<open>The methods of AntGatherEnv\<close>

text \<open>
  \<open>__init__\<close>: ten parameters with defaults, then \<open>*args\<close> and \<open>**kwargs\<close>.
  \<open>bind_init\<close> is Python's binding of a call \<open>AntGatherEnv(*pos, **kw)\<close> to them:
  the first ten positional arguments fill the parameters in order and the rest go to
  \<open>args\<close>; a keyword that names a parameter fills it, and raises TypeError when the
  parameter is already filled, as does the keyword \<open>self\<close>; every other keyword
  goes to \<open>kwargs\<close>.
\<close>

record 'p init_locals =
  n_apples :: 'p
  n_bombs :: 'p
  activity_range :: 'p
  robot_object_spacing :: 'p
  catch_range :: 'p
  n_bins :: 'p
  sensor_range :: 'p
  sensor_span :: 'p
  coef_inner_rew :: 'p
  dying_cost :: 'p
  args :: "'p list"
  kwargs :: "string \<rightharpoonup> 'p"

definition param_names :: "string list" where
  "param_names =
     [''n_apples'', ''n_bombs'', ''activity_range'', ''robot_object_spacing'', ''catch_range'',
      ''n_bins'', ''sensor_range'', ''sensor_span'', ''coef_inner_rew'', ''dying_cost'']"

definition param :: "'p list \<Rightarrow> (string \<rightharpoonup> 'p) \<Rightarrow> nat \<Rightarrow> 'p \<Rightarrow> 'p" where
  "param pos kw i dflt =
     (if i < length pos then pos ! i
      else case kw (param_names ! i) of Some v \<Rightarrow> v | None \<Rightarrow> dflt)"

definition bind_init ::
  "'x pyval list \<Rightarrow> (string \<rightharpoonup> 'x pyval) \<Rightarrow> error + 'x pyval init_locals" where
  "bind_init pos kw =
     (if list_ex (\<lambda>n. kw n \<noteq> None) (''self'' # take (length pos) param_names)
      then Inl TypeError
      else Inr \<lparr>
        n_apples = param pos kw 0 (PyInt 8),
        n_bombs = param pos kw 1 (PyInt 8),
        activity_range = param pos kw 2 (PyFloat (Finite 5 1)),
        robot_object_spacing = param pos kw 3 (PyFloat (Finite 1 1)),
        catch_range = param pos kw 4 (PyFloat (Finite 1 0)),
        n_bins = param pos kw 5 (PyInt 10),
        sensor_range = param pos kw 6 (PyFloat (Finite 3 1)),
        sensor_span = param pos kw 7 (PyFloat (float_mul_exact (Finite 1 1) math_pi)),
        coef_inner_rew = param pos kw 8 (PyFloat (Finite 0 0)),
        dying_cost = param pos kw 9 (PyInt 0),
        args = drop 10 pos,
        kwargs = (\<lambda>k. if k \<in> set param_names then None else kw k)\<rparr>)"

text \<open>
  The arguments of the call \<open>super(AntGatherEnv, self).__init__(n_apples=n_apples, ...,
  *args, **kwargs)\<close>: the positional ones and the keywords. Python raises TypeError
  when \<open>kwargs\<close> repeats a keyword written in the call.
\<close>

definition super_init_call :: "'p init_locals \<Rightarrow> error + 'p list \<times> (string \<rightharpoonup> 'p)" where
  "super_init_call l =
     (if list_ex (\<lambda>n. kwargs l n \<noteq> None) param_names then Inl TypeError
      else Inr (args l,
        (kwargs l)(
          ''n_apples'' \<mapsto> n_apples l,
          ''n_bombs'' \<mapsto> n_bombs l,
          ''activity_range'' \<mapsto> activity_range l,
          ''robot_object_spacing'' \<mapsto> robot_object_spacing l,
          ''catch_range'' \<mapsto> catch_range l,
          ''n_bins'' \<mapsto> n_bins l,
          ''sensor_range'' \<mapsto> sensor_range l,
          ''sensor_span'' \<mapsto> sensor_span l,
          ''coef_inner_rew'' \<mapsto> coef_inner_rew l,
          ''dying_cost'' \<mapsto> dying_cost l)))"

definition init ::
  "('b, 'a, 'v, 'r, 'i, 'w, 's, 'x) GatherEnv \<Rightarrow> 'x pyval init_locals \<Rightarrow> error + ('b, 'v) env" where
  "init G l =
     (case super_init_call l of
        Inl e \<Rightarrow> Inl e
      | Inr (a, k) \<Rightarrow>
          Inr \<lparr>base = super_init G a k, step_number = 0, current_context = None\<rparr>)"

definition new ::
  "('b, 'a, 'v, 'r, 'i, 'w, 's, 'x) GatherEnv \<Rightarrow> 'x pyval list \<Rightarrow> (string \<rightharpoonup> 'x pyval)
    \<Rightarrow> error + ('b, 'v) env" where
  "new G pos kw = (case bind_init pos kw of Inl e \<Rightarrow> Inl e | Inr l \<Rightarrow> init G l)"

definition horizon :: "class_consts \<Rightarrow> int" where
  "horizon K = HORIZON K"

definition step ::
  "class_consts \<Rightarrow> ('b, 'a, 'v, 'r, 'i, 'w, 's, 'x) GatherEnv \<Rightarrow> ('b, 'v) env \<Rightarrow> 'a
    \<Rightarrow> ('v list \<times> 'r \<times> bool \<times> (string \<rightharpoonup> 'i)) \<times> ('b, 'v) env" where
  "step K G self action =
     (let ((obs, reward, done, _), b) = super_step G (base self) action;
          self = self\<lparr>base := b\<rparr>;
          self = self\<lparr>step_number := step_number self + 1\<rparr>;
          done = (done \<or> step_number self = horizon K);
          self = self\<lparr>current_context := Some (slice_from obs (- 2 * self_n_bins G (base self)))\<rparr>;
          obs = slice_upto obs (- 2 * self_n_bins G (base self))
      in ((obs, reward, done, Map.empty), self))"

definition reset ::
  "class_consts \<Rightarrow> ('b, 'a, 'v, 'r, 'i, 'w, 's, 'x) GatherEnv \<Rightarrow> ('b, 'v) env \<Rightarrow> 'w
    \<Rightarrow> 'v list \<times> ('b, 'v) env" where
  "reset K G self also_wrapped =
     (let self = self\<lparr>step_number := 0\<rparr>;
          (obs, b) = super_reset G (base self) also_wrapped;
          self = self\<lparr>base := b\<rparr>;
          self = self\<lparr>current_context := Some (slice_from obs (- 2 * self_n_bins G (base self)))\<rparr>;
          obs = slice_upto obs (- 2 * self_n_bins G (base self))
      in (obs, self))"

definition observation_space ::
  "('b, 'a, 'v, 'r, 'i, 'w, 's, 'x) GatherEnv \<Rightarrow> ('b, 'v) env \<Rightarrow> 's" where
  "observation_space G self = self_robot_observation_space G (base self)"

definition context_space ::
  "('b, 'a, 'v, 'r, 'i, 'w, 's, 'x) GatherEnv \<Rightarrow> ('b, 'v) env \<Rightarrow> error + box" where
  "context_space G self = Box (float_neg PosInf) PosInf (2 * self_n_bins G (base self)) float32"

subsection \<open>Callers\<close>

text \<open>The components of what \<open>step\<close> returns.\<close>

definition obs_of :: "'o \<times> 'r \<times> bool \<times> 'd \<Rightarrow> 'o" where
  "obs_of t = fst t"

definition reward_of :: "'o \<times> 'r \<times> bool \<times> 'd \<Rightarrow> 'r" where
  "reward_of t = fst (snd t)"

definition done_of :: "'o \<times> 'r \<times> bool \<times> 'd \<Rightarrow> bool" where
  "done_of t = fst (snd (snd t))"

definition info_of :: "'o \<times> 'r \<times> bool \<times> 'd \<Rightarrow> 'd" where
  "info_of t = snd (snd (snd t))"

text \<open>A caller that steps through a list of actions: what each call returned, and the instance at the end.\<close>

fun rollout ::
  "class_consts \<Rightarrow> ('b, 'a, 'v, 'r, 'i, 'w, 's, 'x) GatherEnv \<Rightarrow> ('b, 'v) env \<Rightarrow> 'a list
    \<Rightarrow> ('v list \<times> 'r \<times> bool \<times> (string \<rightharpoonup> 'i)) list \<times> ('b, 'v) env" where
  "rollout K G self [] = ([], self)"
| "rollout K G self (a # as) =
     (let (out, self) = step K G self a;
          (outs, self) = rollout K G self as
      in (out # outs, self))"

text \<open>The operations on an instance, and the instance after one of them. The three properties only read.\<close>

datatype ('a, 'w) call =
  Call_step 'a | Call_reset 'w | Get_horizon | Get_observation_space | Get_context_space

fun after ::
  "class_consts \<Rightarrow> ('b, 'a, 'v, 'r, 'i, 'w, 's, 'x) GatherEnv \<Rightarrow> ('b, 'v) env \<Rightarrow> ('a, 'w) call
    \<Rightarrow> ('b, 'v) env" where
  "after K G self (Call_step a) = snd (step K G self a)"
| "after K G self (Call_reset w) = snd (reset K G self w)"
| "after K G self Get_horizon = self"
| "after K G self Get_observation_space = self"
| "after K G self Get_context_space = self"

subsection \<open>The three classes\<close>

text \<open>
  The class statements of the file. \<open>constants\<close> gives the three constants each
  class body binds. \<open>superclass\<close> is the base named in the class statement, where it
  is a class of this file: \<open>AntGatherEnv\<close> derives from \<open>GatherEnv\<close>.
\<close>

datatype cname = AntGatherEnv | SwimmerGatherEnv | SnakeGatherEnv

fun constants :: "cname \<Rightarrow> class_consts" where
  "constants AntGatherEnv = \<lparr>MODEL_CLASS = AntEnv, ORI_IND = 3, HORIZON = 500\<rparr>"
| "constants SwimmerGatherEnv = \<lparr>MODEL_CLASS = SwimmerEnv, ORI_IND = 2, HORIZON = 500\<rparr>"
| "constants SnakeGatherEnv = \<lparr>MODEL_CLASS = SnakeEnv, ORI_IND = 2, HORIZON = 800\<rparr>"

fun superclass :: "cname \<Rightarrow> cname option" where
  "superclass AntGatherEnv = None"
| "superclass SwimmerGatherEnv = Some AntGatherEnv"
| "superclass SnakeGatherEnv = Some AntGatherEnv"

text \<open>
  What a class body binds a name to: the value of a constant, or the function (or
  property) that the body of the named class defines. \<open>class_body V c\<close> lists the
  bindings of the body of \<open>c\<close>, the docstring aside, in a file whose constants have the
  values \<open>V\<close>; the file itself is \<open>class_body constants\<close>.
\<close>

datatype attr_value = Model_value model_class | Int_value int | Function cname string

definition constants_body :: "class_consts \<Rightarrow> (string \<times> attr_value) list" where
  "constants_body K =
     [(''MODEL_CLASS'', Model_value (MODEL_CLASS K)),
      (''ORI_IND'', Int_value (ORI_IND K)),
      (''HORIZON'', Int_value (HORIZON K))]"

fun class_body :: "(cname \<Rightarrow> class_consts) \<Rightarrow> cname \<Rightarrow> (string \<times> attr_value) list" where
  "class_body V AntGatherEnv =
     constants_body (V AntGatherEnv) @
     [(''__init__'', Function AntGatherEnv ''__init__''),
      (''step'', Function AntGatherEnv ''step''),
      (''reset'', Function AntGatherEnv ''reset''),
      (''horizon'', Function AntGatherEnv ''horizon''),
      (''observation_space'', Function AntGatherEnv ''observation_space''),
      (''context_space'', Function AntGatherEnv ''context_space'')]"
| "class_body V SwimmerGatherEnv = constants_body (V SwimmerGatherEnv)"
| "class_body V SnakeGatherEnv = constants_body (V SnakeGatherEnv)"

text \<open>
  Attribute lookup on a class or an instance of it: the first binding along the method
  resolution order, which under single inheritance is the chain of superclasses.
\<close>

function mro :: "cname \<Rightarrow> cname list" where
  "mro c = c # (case superclass c of None \<Rightarrow> [] | Some d \<Rightarrow> mro d)"
  by pat_completeness auto
termination
proof (relation "measure (\<lambda>c. if c = AntGatherEnv then 0 else 1)")
  show "wf (measure (\<lambda>c. if c = AntGatherEnv then 0 else (1 :: nat)))"
    by simp
next
  fix c d
  assume "superclass c = Some d"
  then show "(d, c) \<in> measure (\<lambda>c. if c = AntGatherEnv then 0 else (1 :: nat))"
    by (cases c) simp_all
qed

definition getattr :: "(cname \<Rightarrow> class_consts) \<Rightarrow> cname \<Rightarrow> string \<Rightarrow> attr_value option" where
  "getattr V c name = map_of (concat (map (class_body V) (mro c))) name"

definition class_constants :: "(cname \<Rightarrow> class_consts) \<Rightarrow> cname \<Rightarrow> class_consts option" where
  "class_constants V c =
     (case (getattr V c ''MODEL_CLASS'', getattr V c ''ORI_IND'', getattr V c ''HORIZON'') of
        (Some (Model_value m), Some (Int_value i), Some (Int_value h)) \<Rightarrow>
          Some \<lparr>MODEL_CLASS = m, ORI_IND = i, HORIZON = h\<rparr>
      | _ \<Rightarrow> None)"

text \<open>
  A call of the method \<open>name\<close> on an instance of class \<open>c\<close>: the lookup must find a
  function of this file, whose meaning \<open>f\<close> is then applied to the constants the
  instance sees. None stands for a name that the classes of this file do not bind.
\<close>

definition invoke ::
  "(cname \<Rightarrow> class_consts) \<Rightarrow> cname \<Rightarrow> string \<Rightarrow> (class_consts \<Rightarrow> 'y) \<Rightarrow> 'y option" where
  "invoke V c name f =
     (case (getattr V c name, class_constants V c) of
        (Some (Function d n), Some K) \<Rightarrow> if d = AntGatherEnv \<and> n = name then Some (f K) else None
      | _ \<Rightarrow> None)"

text \<open>
  The operations of an instance of class \<open>c\<close>. The base class reads \<open>MODEL_CLASS\<close>
  and \<open>ORI_IND\<close> through the instance, so its methods \<open>B K\<close> depend on the
  constants too.
\<close>

definition call_new ::
  "(cname \<Rightarrow> class_consts) \<Rightarrow> (class_consts \<Rightarrow> ('b, 'a, 'v, 'r, 'i, 'w, 's, 'x) GatherEnv) \<Rightarrow> cname
    \<Rightarrow> 'x pyval list \<Rightarrow> (string \<rightharpoonup> 'x pyval) \<Rightarrow> (error + ('b, 'v) env) option" where
  "call_new V B c pos kw = invoke V c ''__init__'' (\<lambda>K. new (B K) pos kw)"

definition call_step ::
  "(cname \<Rightarrow> class_consts) \<Rightarrow> (class_consts \<Rightarrow> ('b, 'a, 'v, 'r, 'i, 'w, 's, 'x) GatherEnv) \<Rightarrow> cname
    \<Rightarrow> ('b, 'v) env \<Rightarrow> 'a
    \<Rightarrow> (('v list \<times> 'r \<times> bool \<times> (string \<rightharpoonup> 'i)) \<times> ('b, 'v) env) option" where
  "call_step V B c self a = invoke V c ''step'' (\<lambda>K. step K (B K) self a)"

definition call_reset ::
  "(cname \<Rightarrow> class_consts) \<Rightarrow> (class_consts \<Rightarrow> ('b, 'a, 'v, 'r, 'i, 'w, 's, 'x) GatherEnv) \<Rightarrow> cname
    \<Rightarrow> ('b, 'v) env \<Rightarrow> 'w \<Rightarrow> ('v list \<times> ('b, 'v) env) option" where
  "call_reset V B c self w = invoke V c ''reset'' (\<lambda>K. reset K (B K) self w)"

definition get_horizon :: "(cname \<Rightarrow> class_consts) \<Rightarrow> cname \<Rightarrow> int option" where
  "get_horizon V c = invoke V c ''horizon'' horizon"

definition get_observation_space ::
  "(cname \<Rightarrow> class_consts) \<Rightarrow> (class_consts \<Rightarrow> ('b, 'a, 'v, 'r, 'i, 'w, 's, 'x) GatherEnv) \<Rightarrow> cname
    \<Rightarrow> ('b, 'v) env \<Rightarrow> 's option" where
  "get_observation_space V B c self =
     invoke V c ''observation_space'' (\<lambda>K. observation_space (B K) self)"

definition get_context_space ::
  "(cname \<Rightarrow> class_consts) \<Rightarrow> (class_consts \<Rightarrow> ('b, 'a, 'v, 'r, 'i, 'w, 's, 'x) GatherEnv) \<Rightarrow> cname
    \<Rightarrow> ('b, 'v) env \<Rightarrow> (error + box) option" where
  "get_context_space V B c self = invoke V c ''context_space'' (\<lambda>K. context_space (B K) self)"

subsection \<open>The specification's wording\<close>

text \<open>
  A sequence with its last \<open>k\<close> elements removed, and those last \<open>k\<close> elements, as
  the specification speaks of them: \<open>k\<close> is a number of elements.
\<close>

definition without_last :: "nat \<Rightarrow> 'v list \<Rightarrow> 'v list" where
  "without_last k xs = take (length xs - k) xs"

definition last_elements :: "nat \<Rightarrow> 'v list \<Rightarrow> 'v list" where
  "last_elements k xs = drop (length xs - k) xs"

text \<open>
  The value the caller supplied for the parameter number \<open>i\<close>, called \<open>name\<close>, if
  any: by position or by keyword. A parameter left out takes its default.
\<close>

definition supplied :: "'p list \<Rightarrow> (string \<rightharpoonup> 'p) \<Rightarrow> nat \<Rightarrow> string \<Rightarrow> 'p option" where
  "supplied pos kw i name = (if i < length pos then Some (pos ! i) else kw name)"

definition or_default :: "'p option \<Rightarrow> 'p \<Rightarrow> 'p" where
  "or_default v d = (case v of Some x \<Rightarrow> x | None \<Rightarrow> d)"

subsection \<open>A concrete base class\<close>

text \<open>
  For the concrete instances below: a base class whose state counts the steps since its
  reset, whose \<open>n_bins\<close> is \<open>n\<close>, and which observes \<open>obs\<close> and reports \<open>d\<close> as
  done at every step.
\<close>

definition sample_base ::
  "int \<Rightarrow> 'v list \<Rightarrow> bool \<Rightarrow> (nat, unit, 'v, int, int, bool, unit, unit) GatherEnv" where
  "sample_base n obs d =
     \<lparr>super_init = (\<lambda>a k. 0),
      super_step = (\<lambda>b a. ((obs, 1, d, [''steps'' \<mapsto> int b]), Suc b)),
      super_reset = (\<lambda>b w. (obs, 0)),
      self_n_bins = (\<lambda>b. n),
      self_robot_observation_space = (\<lambda>b. ())\<rparr>"

definition sample_env :: "int \<Rightarrow> (nat, 'v) env" where
  "sample_env k = \<lparr>base = 0, step_number = k, current_context = None\<rparr>"

definition sample_kw :: "string \<rightharpoonup> unit pyval" where
  "sample_kw = [''n_bins'' \<mapsto> PyInt 5, ''render'' \<mapsto> PyObj ()]"

section \<open>Properties\<close>

subsection \<open>What the methods return and leave behind\<close>

lemma step_env:
  "snd (step K G self a) =
     self\<lparr>base := snd (super_step G (base self) a),
          step_number := step_number self + 1,
          current_context :=
            Some (slice_from (fst (fst (super_step G (base self) a)))
                    (- 2 * self_n_bins G (snd (super_step G (base self) a))))\<rparr>"
  by (simp add: step_def Let_def split: prod.splits)

lemma step_out:
  "fst (step K G self a) =
     (slice_upto (obs_of (fst (super_step G (base self) a)))
         (- 2 * self_n_bins G (snd (super_step G (base self) a))),
      reward_of (fst (super_step G (base self) a)),
      done_of (fst (super_step G (base self) a)) \<or> step_number self + 1 = horizon K,
      Map.empty)"
  by (simp add: step_def Let_def obs_of_def reward_of_def done_of_def split: prod.splits)

lemma reset_env:
  "snd (reset K G self w) =
     self\<lparr>step_number := 0, base := snd (super_reset G (base self) w),
          current_context :=
            Some (slice_from (fst (super_reset G (base self) w))
                    (- 2 * self_n_bins G (snd (super_reset G (base self) w))))\<rparr>"
  by (simp add: reset_def Let_def split: prod.splits)

lemma reset_out:
  "fst (reset K G self w) =
     slice_upto (fst (super_reset G (base self) w))
       (- 2 * self_n_bins G (snd (super_reset G (base self) w)))"
  by (simp add: reset_def Let_def split: prod.splits)

lemma step_number_step: "step_number (snd (step K G self a)) = step_number self + 1"
  by (simp add: step_env)

lemma step_number_reset: "step_number (snd (reset K G self w)) = 0"
  by (simp add: reset_env)

lemma init_step_number: "init G l = Inr e \<Longrightarrow> step_number e = 0"
  by (auto simp: init_def split: sum.splits prod.splits)

subsection \<open>Rollouts\<close>

lemma rollout_Cons:
  "rollout K G self (a # as) =
     (fst (step K G self a) # fst (rollout K G (snd (step K G self a)) as),
      snd (rollout K G (snd (step K G self a)) as))"
  by (simp split: prod.splits)

lemma step_number_rollout:
  "step_number (snd (rollout K G self acts)) = step_number self + int (length acts)"
  by (induction acts arbitrary: self)
    (simp_all only: rollout.simps(1) rollout_Cons snd_conv step_number_step, simp_all)

lemma rollout_append:
  "rollout K G self (xs @ ys) =
     (fst (rollout K G self xs) @ fst (rollout K G (snd (rollout K G self xs)) ys),
      snd (rollout K G (snd (rollout K G self xs)) ys))"
  by (induction xs arbitrary: self)
    (simp_all only: rollout.simps(1) rollout_Cons append_Nil append_Cons fst_conv snd_conv,
      simp_all)

lemma rollout_last:
  assumes "acts \<noteq> []"
  shows "last (fst (rollout K G self acts)) =
           fst (step K G (snd (rollout K G self (butlast acts))) (last acts))"
proof -
  from assms have "acts = butlast acts @ [last acts]" by simp
  then have "rollout K G self acts = rollout K G self (butlast acts @ [last acts])" by simp
  then show ?thesis
    by (simp only: rollout_append rollout_Cons rollout.simps(1)) simp
qed

lemma after_step_number:
  "(\<And>w. c \<noteq> Call_reset w) \<Longrightarrow> step_number self \<le> step_number (after K G self c)"
  by (cases c) (auto simp: step_number_step)

subsection \<open>Slices\<close>

lemma slice_partition: "slice_upto xs i @ slice_from xs i = xs"
  by (simp add: slice_upto_def slice_from_def)

lemma slice_index_neg: "0 < n \<Longrightarrow> slice_index len (- (2 * n)) = len - nat (2 * n)"
  unfolding slice_index_def by (simp add: max_def) linarith

text \<open>
  With a positive \<open>n_bins\<close>, \<open>step\<close> and \<open>reset\<close> return the base class's
  observation without its last \<open>2 * n_bins\<close> elements and keep those elements as
  \<open>current_context\<close>. Whatever \<open>n_bins\<close> is, the two parts make up the observation.
  The bound \<open>-2 * n_bins\<close> counts from the end only when it is negative: at
  \<open>n_bins = 0\<close> it is the bound \<open>0\<close>.
\<close>

lemma slices_at_zero: "slice_upto xs (- 2 * 0) = [] \<and> slice_from xs (- 2 * 0) = xs"
  by (simp add: slice_upto_def slice_from_def slice_index_def)

lemma step_splits:
  assumes "0 < self_n_bins G (snd (super_step G (base self) a))"
  shows "obs_of (fst (step K G self a)) =
           without_last (nat (2 * self_n_bins G (snd (super_step G (base self) a))))
             (obs_of (fst (super_step G (base self) a)))"
    and "current_context (snd (step K G self a)) =
           Some (last_elements (nat (2 * self_n_bins G (snd (super_step G (base self) a))))
             (obs_of (fst (super_step G (base self) a))))"
  using assms
  by (simp_all add: step_out step_env obs_of_def without_last_def last_elements_def
      slice_upto_def slice_from_def slice_index_neg)

lemma reset_splits:
  assumes "0 < self_n_bins G (snd (super_reset G (base self) w))"
  shows "fst (reset K G self w) =
           without_last (nat (2 * self_n_bins G (snd (super_reset G (base self) w))))
             (fst (super_reset G (base self) w))"
    and "current_context (snd (reset K G self w)) =
           Some (last_elements (nat (2 * self_n_bins G (snd (super_reset G (base self) w))))
             (fst (super_reset G (base self) w)))"
  using assms
  by (simp_all add: reset_out reset_env without_last_def last_elements_def
      slice_upto_def slice_from_def slice_index_neg)

lemma step_partition:
  "\<exists>c. current_context (snd (step K G self a)) = Some c
     \<and> obs_of (fst (step K G self a)) @ c = obs_of (fst (super_step G (base self) a))"
  by (simp add: step_out step_env obs_of_def slice_partition)

lemma reset_partition:
  "\<exists>c. current_context (snd (reset K G self w)) = Some c
     \<and> fst (reset K G self w) @ c = fst (super_reset G (base self) w)"
  by (simp add: reset_out reset_env slice_partition)

text \<open>
  \<open>context_space\<close> is a box of \<open>2 * n_bins\<close> coordinates, each unbounded below and
  above, for every \<open>n_bins\<close> that is not negative. After a \<open>step\<close> or a
  \<open>reset\<close> on an instance with a positive \<open>n_bins\<close>, whose base class observed
  at least \<open>2 * n_bins\<close> elements, \<open>current_context\<close> has as many elements as
  the box has coordinates.
\<close>

lemma context_space_box:
  "0 \<le> self_n_bins G (base self) \<Longrightarrow>
   context_space G self =
     Inr \<lparr>low = replicate (nat (2 * self_n_bins G (base self))) NegInf,
          high = replicate (nat (2 * self_n_bins G (base self))) PosInf,
          dtype = float32\<rparr>"
  by (simp add: context_space_def Box_def)

lemma context_space_negative:
  "self_n_bins G (base self) < 0 \<Longrightarrow> context_space G self = Inl ValueError"
  by (simp add: context_space_def Box_def)

lemma context_space_length:
  assumes "0 < self_n_bins G (snd (super_step G (base self) a))"
    and "2 * self_n_bins G (snd (super_step G (base self) a))
           \<le> int (length (obs_of (fst (super_step G (base self) a))))"
  shows "\<exists>b c. context_space G (snd (step K G self a)) = Inr b
           \<and> current_context (snd (step K G self a)) = Some c
           \<and> length (low b) = length c \<and> length (high b) = length c"
  using assms
  by (simp add: context_space_def Box_def step_env slice_from_def slice_index_neg obs_of_def)

lemma context_space_length_reset:
  assumes "0 < self_n_bins G (snd (super_reset G (base self) w))"
    and "2 * self_n_bins G (snd (super_reset G (base self) w))
           \<le> int (length (fst (super_reset G (base self) w)))"
  shows "\<exists>b c. context_space G (snd (reset K G self w)) = Inr b
           \<and> current_context (snd (reset K G self w)) = Some c
           \<and> length (low b) = length c \<and> length (high b) = length c"
  using assms
  by (simp add: context_space_def Box_def reset_env slice_from_def slice_index_neg)

subsection \<open>The constructor\<close>

lemma new_step_number: "new G pos kw = Inr e \<Longrightarrow> step_number e = 0"
  by (auto simp: new_def split: sum.splits dest: init_step_number)

lemma bind_init_kwargs:
  assumes "bind_init pos kw = Inr l"
  shows "kwargs l n = (if n \<in> set param_names then None else kw n)"
  using assms by (auto simp: bind_init_def split: if_splits)

lemma super_init_call_bound:
  assumes "bind_init pos kw = Inr l"
  shows "super_init_call l = Inr (args l,
        (kwargs l)(
          ''n_apples'' \<mapsto> n_apples l,
          ''n_bombs'' \<mapsto> n_bombs l,
          ''activity_range'' \<mapsto> activity_range l,
          ''robot_object_spacing'' \<mapsto> robot_object_spacing l,
          ''catch_range'' \<mapsto> catch_range l,
          ''n_bins'' \<mapsto> n_bins l,
          ''sensor_range'' \<mapsto> sensor_range l,
          ''sensor_span'' \<mapsto> sensor_span l,
          ''coef_inner_rew'' \<mapsto> coef_inner_rew l,
          ''dying_cost'' \<mapsto> dying_cost l))"
proof -
  have "\<not> list_ex (\<lambda>n. kwargs l n \<noteq> None) param_names"
    by (simp add: list_ex_iff bind_init_kwargs [OF assms])
  then show ?thesis
    by (simp add: super_init_call_def)
qed

subsection \<open>Attribute lookup\<close>

lemma class_constants_own: "class_constants V c = Some (V c)"
  by (cases c) (simp_all add: class_constants_def getattr_def constants_body_def)

lemma getattr_method:
  "name \<in> {''__init__'', ''step'', ''reset'', ''horizon'', ''observation_space'', ''context_space''}
    \<Longrightarrow> getattr V c name = Some (Function AntGatherEnv name)"
  by (cases c) (auto simp: getattr_def constants_body_def)

lemma invoke_method:
  "name \<in> {''__init__'', ''step'', ''reset'', ''horizon'', ''observation_space'', ''context_space''}
    \<Longrightarrow> invoke V c name f = Some (f (V c))"
  by (simp only: invoke_def getattr_method class_constants_own) simp

lemma calls:
  "call_new V B c pos kw = Some (new (B (V c)) pos kw)"
  "call_step V B c self a = Some (step (V c) (B (V c)) self a)"
  "call_reset V B c self w = Some (reset (V c) (B (V c)) self w)"
  "get_horizon V c = Some (horizon (V c))"
  "get_observation_space V B c self = Some (observation_space (B (V c)) self)"
  "get_context_space V B c self = Some (context_space (B (V c)) self)"
  by (simp_all add: call_new_def call_step_def call_reset_def get_horizon_def
      get_observation_space_def get_context_space_def invoke_method)

subsection \<open>The claims\<close>

text \<open>
  C2: in an episode, the call of \<open>step\<close> that is number \<open>horizon\<close> since the last
  \<open>reset\<close> returns done as true, whatever the base class reports.
\<close>

theorem done_at_horizon:
  assumes "acts \<noteq> []" and "int (length acts) = horizon K"
  shows "done_of (last (fst (rollout K G (snd (reset K G self w)) acts)))"
proof -
  let ?s = "snd (rollout K G (snd (reset K G self w)) (butlast acts))"
  have "step_number ?s = int (length (butlast acts))"
    by (simp add: step_number_rollout step_number_reset)
  also have "\<dots> = int (length acts) - 1"
    using assms(1) by (simp add: Suc_leI)
  finally have "step_number ?s + 1 = horizon K"
    using assms(2) by simp
  then have "done_of (fst (step K G ?s (last acts)))"
    by (simp add: step_out done_of_def)
  then show ?thesis
    using assms(1) by (simp add: rollout_last)
qed

theorem done_at_horizon_witness:
  "replicate 500 () \<noteq> []
   \<and> int (length (replicate 500 ())) = horizon (constants AntGatherEnv)
   \<and> done_of (last (fst (rollout (constants AntGatherEnv) (sample_base 10 [1 :: int] False)
        (snd (reset (constants AntGatherEnv) (sample_base 10 [1 :: int] False) (sample_env 7) True))
        (replicate 500 ()))))"
  using done_at_horizon [of "replicate 500 ()" "constants AntGatherEnv"
      "sample_base 10 [1 :: int] False" "sample_env 7" True]
  by (simp add: horizon_def)

text \<open>C3: when \<open>reset\<close> returns, \<open>step_number\<close> is zero.\<close>

theorem reset_step_number_zero: "step_number (snd (reset K G self also_wrapped)) = 0"
  by (simp add: reset_env)

text \<open>
  C8: \<open>step\<close> leaves the instance as the base class's \<open>step\<close> left it, but for
  \<open>step_number\<close> and \<open>current_context\<close>.
\<close>

theorem step_frame:
  "base (snd (step K G self a)) = snd (super_step G (base self) a)
   \<and> (\<exists>n c. snd (step K G self a) =
          self\<lparr>base := snd (super_step G (base self) a), step_number := n, current_context := c\<rparr>)"
  by (simp add: step_env) blast

text \<open>
  C10: \<open>step\<close> returns done as true exactly when the base class does or the
  incremented \<open>step_number\<close> equals \<open>horizon\<close>; once \<open>step_number\<close> has reached
  \<open>horizon\<close>, as after \<open>horizon\<close> or more steps since a \<open>reset\<close>, it returns the
  base class's done.
\<close>

theorem done_only_at_horizon:
  "done_of (fst (step K G self a)) =
     (done_of (fst (super_step G (base self) a)) \<or> step_number self + 1 = horizon K)
   \<and> (horizon K \<le> step_number self \<longrightarrow>
        done_of (fst (step K G self a)) = done_of (fst (super_step G (base self) a)))
   \<and> (horizon K \<le> int (length acts) \<longrightarrow>
        done_of (fst (step K G (snd (rollout K G (snd (reset K G s w)) acts)) a')) =
        done_of (fst (super_step G (base (snd (rollout K G (snd (reset K G s w)) acts))) a')))"
proof -
  have "horizon K \<le> int (length acts) \<Longrightarrow>
      step_number (snd (rollout K G (snd (reset K G s w)) acts)) + 1 \<noteq> horizon K"
    by (simp add: step_number_rollout step_number_reset)
  then show ?thesis
    by (simp add: step_out done_of_def)
qed

theorem done_only_at_horizon_witness:
  "horizon (constants AntGatherEnv) \<le> step_number (sample_env 500 :: (nat, int) env)
   \<and> done_of (fst (step (constants AntGatherEnv) (sample_base 10 [] False)
         (sample_env 500 :: (nat, int) env) ())) = False
   \<and> horizon (constants AntGatherEnv) \<le> int (length (replicate 500 ()))
   \<and> done_of (fst (step (constants AntGatherEnv) (sample_base 10 [] False)
         (snd (rollout (constants AntGatherEnv) (sample_base 10 [] False)
            (snd (reset (constants AntGatherEnv) (sample_base 10 [] False)
               (sample_env 7 :: (nat, int) env) True))
            (replicate 500 ()))) ())) = False"
  using done_only_at_horizon [of "constants AntGatherEnv" "sample_base 10 ([] :: int list) False"
      "sample_env 500" "()" "replicate 500 ()" "sample_env 7" True "()"]
  by (simp add: horizon_def sample_env_def sample_base_def done_of_def)

text \<open>
  C9: the fourth component of what \<open>step\<close> returns is the empty dictionary, whatever
  info dictionary the base class's \<open>step\<close> produced.
\<close>

theorem step_info_empty: "info_of (fst (step K G self action)) = Map.empty"
  by (simp add: step_out info_of_def)

text \<open>
  C1: where \<open>n_bins\<close> is positive when the base class's call returns, as a number
  of sensor bins is, \<open>step\<close> and \<open>reset\<close> return the base class's observation
  without its last \<open>2 * n_bins\<close> elements and set \<open>current_context\<close> to exactly
  those last \<open>2 * n_bins\<close> elements.
\<close>

theorem observation_split:
  "(0 < self_n_bins G (snd (super_step G (base self) a)) \<longrightarrow>
      obs_of (fst (step K G self a)) =
        without_last (nat (2 * self_n_bins G (snd (super_step G (base self) a))))
          (obs_of (fst (super_step G (base self) a)))
      \<and> current_context (snd (step K G self a)) =
        Some (last_elements (nat (2 * self_n_bins G (snd (super_step G (base self) a))))
          (obs_of (fst (super_step G (base self) a)))))
   \<and> (0 < self_n_bins G (snd (super_reset G (base self) w)) \<longrightarrow>
      fst (reset K G self w) =
        without_last (nat (2 * self_n_bins G (snd (super_reset G (base self) w))))
          (fst (super_reset G (base self) w))
      \<and> current_context (snd (reset K G self w)) =
        Some (last_elements (nat (2 * self_n_bins G (snd (super_reset G (base self) w))))
          (fst (super_reset G (base self) w))))"
  by (intro conjI impI step_splits reset_splits; assumption)

theorem observation_split_witness:
  "0 < self_n_bins (sample_base 2 [1, 2, 3, 4, 5, 6 :: int] False)
         (snd (super_step (sample_base 2 [1, 2, 3, 4, 5, 6 :: int] False)
            (base (sample_env 0 :: (nat, int) env)) ()))
   \<and> obs_of (fst (step (constants AntGatherEnv) (sample_base 2 [1, 2, 3, 4, 5, 6 :: int] False)
         (sample_env 0) ())) = [1, 2]
   \<and> current_context (snd (step (constants AntGatherEnv)
         (sample_base 2 [1, 2, 3, 4, 5, 6 :: int] False) (sample_env 0) ())) = Some [3, 4, 5, 6]
   \<and> 0 < self_n_bins (sample_base 2 [1, 2, 3, 4, 5, 6 :: int] False)
         (snd (super_reset (sample_base 2 [1, 2, 3, 4, 5, 6 :: int] False)
            (base (sample_env 0 :: (nat, int) env)) True))
   \<and> fst (reset (constants AntGatherEnv) (sample_base 2 [1, 2, 3, 4, 5, 6 :: int] False)
         (sample_env 0) True) = [1, 2]
   \<and> current_context (snd (reset (constants AntGatherEnv)
         (sample_base 2 [1, 2, 3, 4, 5, 6 :: int] False) (sample_env 0) True)) = Some [3, 4, 5, 6]"
  using observation_split [where G = "sample_base 2 [1, 2, 3, 4, 5, 6 :: int] False"
      and self = "sample_env 0" and a = "()" and w = True and K = "constants AntGatherEnv"]
  by (simp add: sample_base_def sample_env_def obs_of_def without_last_def last_elements_def)

text \<open>
  C4: \<open>step_number\<close> is zero after the constructor and after \<open>reset\<close>; \<open>step\<close>
  adds exactly one to it, so after a rollout it has grown by the number of steps and it
  never decreases along a rollout; no operation but \<open>reset\<close> decreases it.
\<close>

theorem step_number_monotone:
  "step_number (snd (reset K G self w)) = 0
   \<and> (new G pos kw = Inr e \<longrightarrow> step_number e = 0)
   \<and> step_number (snd (step K G self a)) = step_number self + 1
   \<and> step_number (snd (rollout K G self acts)) = step_number self + int (length acts)
   \<and> (i \<le> j \<longrightarrow>
        step_number (snd (rollout K G self (take i acts)))
          \<le> step_number (snd (rollout K G self (take j acts))))
   \<and> ((\<forall>w. c \<noteq> Call_reset w) \<longrightarrow> step_number self \<le> step_number (after K G self c))"
proof -
  have "i \<le> j \<Longrightarrow> min (length acts) i \<le> min (length acts) j"
    by simp
  then show ?thesis
    by (simp add: step_number_reset new_step_number step_number_step step_number_rollout
        after_step_number)
qed

theorem step_number_monotone_witness:
  "new (sample_base 10 [1 :: int] False) [] (Map.empty :: string \<rightharpoonup> unit pyval) = Inr (sample_env 0)
   \<and> step_number (sample_env 0 :: (nat, int) env) = 0
   \<and> (1 :: nat) \<le> 2
   \<and> step_number (snd (rollout (constants AntGatherEnv) (sample_base 10 [1 :: int] False)
          (sample_env 0) (take 1 [(), (), ()])))
       \<le> step_number (snd (rollout (constants AntGatherEnv) (sample_base 10 [1 :: int] False)
          (sample_env 0) (take 2 [(), (), ()])))
   \<and> (\<forall>w :: bool. Call_step () \<noteq> Call_reset w)
   \<and> step_number (sample_env 0 :: (nat, int) env)
       \<le> step_number (after (constants AntGatherEnv) (sample_base 10 [1 :: int] False)
            (sample_env 0) (Call_step () :: (unit, bool) call))"
proof -
  have n: "new (sample_base 10 [1 :: int] False) [] (Map.empty :: string \<rightharpoonup> unit pyval)
      = Inr (sample_env 0)"
    by (simp add: new_def bind_init_def init_def super_init_call_def param_names_def
        sample_base_def sample_env_def)
  show ?thesis
    using n step_number_monotone [where K = "constants AntGatherEnv"
        and G = "sample_base 10 [1 :: int] False" and self = "sample_env 0" and w = True
        and pos = "[]" and kw = "Map.empty :: string \<rightharpoonup> unit pyval" and e = "sample_env 0"
        and a = "()" and acts = "[(), (), ()]" and i = 1 and j = 2 and c = "Call_step ()"]
    by simp
qed

text \<open>
  C5: where \<open>n_bins\<close> is not negative, \<open>context_space\<close> is a box of
  \<open>2 * n_bins\<close> coordinates of type float32, each with lower bound minus infinity and
  upper bound plus infinity. Where \<open>n_bins\<close> is positive and the base class's
  observation holds at least the \<open>2 * n_bins\<close> sensor readings, the box has as many
  coordinates as \<open>current_context\<close> has elements after \<open>step\<close> and after
  \<open>reset\<close>.
\<close>

theorem context_space_unbounded:
  "(0 \<le> self_n_bins G (base self) \<longrightarrow>
      context_space G self =
        Inr \<lparr>low = replicate (nat (2 * self_n_bins G (base self))) NegInf,
             high = replicate (nat (2 * self_n_bins G (base self))) PosInf,
             dtype = float32\<rparr>)
   \<and> (0 < self_n_bins G (snd (super_step G (base self) a))
        \<and> 2 * self_n_bins G (snd (super_step G (base self) a))
             \<le> int (length (obs_of (fst (super_step G (base self) a)))) \<longrightarrow>
      (\<exists>b c. context_space G (snd (step K G self a)) = Inr b
         \<and> current_context (snd (step K G self a)) = Some c
         \<and> length (low b) = length c \<and> length (high b) = length c))
   \<and> (0 < self_n_bins G (snd (super_reset G (base self) w))
        \<and> 2 * self_n_bins G (snd (super_reset G (base self) w))
             \<le> int (length (fst (super_reset G (base self) w))) \<longrightarrow>
      (\<exists>b c. context_space G (snd (reset K G self w)) = Inr b
         \<and> current_context (snd (reset K G self w)) = Some c
         \<and> length (low b) = length c \<and> length (high b) = length c))"
  using context_space_box [of G self] context_space_length [of G self a K]
    context_space_length_reset [of G self w K]
  by blast

theorem context_space_unbounded_witness:
  "0 \<le> self_n_bins (sample_base 2 [1, 2, 3, 4, 5, 6 :: int] False)
         (base (sample_env 0 :: (nat, int) env))
   \<and> context_space (sample_base 2 [1, 2, 3, 4, 5, 6 :: int] False)
         (sample_env 0 :: (nat, int) env) =
       Inr \<lparr>low = [NegInf, NegInf, NegInf, NegInf], high = [PosInf, PosInf, PosInf, PosInf],
            dtype = float32\<rparr>
   \<and> 2 * self_n_bins (sample_base 2 [1, 2, 3, 4, 5, 6 :: int] False)
         (snd (super_step (sample_base 2 [1, 2, 3, 4, 5, 6 :: int] False)
            (base (sample_env 0 :: (nat, int) env)) ()))
       \<le> int (length (obs_of (fst (super_step (sample_base 2 [1, 2, 3, 4, 5, 6 :: int] False)
            (base (sample_env 0 :: (nat, int) env)) ()))))
   \<and> (\<exists>b c. context_space (sample_base 2 [1, 2, 3, 4, 5, 6 :: int] False)
           (snd (step (constants AntGatherEnv) (sample_base 2 [1, 2, 3, 4, 5, 6 :: int] False)
              (sample_env 0) ())) = Inr b
         \<and> current_context (snd (step (constants AntGatherEnv)
              (sample_base 2 [1, 2, 3, 4, 5, 6 :: int] False) (sample_env 0) ())) = Some c
         \<and> length (low b) = 4 \<and> length c = 4)"
proof -
  have four: "replicate 4 x = [x, x, x, x]" for x :: pyfloat
    by (simp add: eval_nat_numeral)
  show ?thesis
    using context_space_unbounded [where G = "sample_base 2 [1, 2, 3, 4, 5, 6 :: int] False"
        and self = "sample_env 0" and a = "()" and w = True and K = "constants AntGatherEnv"]
    by (auto simp: sample_base_def sample_env_def obs_of_def step_env slice_from_def
        slice_index_def four)
qed

text \<open>
  C6: on an instance of any of the three classes, the constructor, \<open>step\<close>,
  \<open>reset\<close> and the three properties are the functions that the body of
  \<open>AntGatherEnv\<close> defines, applied to the constants of the instance's own class; so two
  classes whose three constants have the same values have the same constructor, \<open>step\<close>,
  \<open>reset\<close> and properties.
\<close>

theorem variants_share_methods:
  "call_new V B c pos kw = Some (new (B (V c)) pos kw)
   \<and> call_step V B c self a = Some (step (V c) (B (V c)) self a)
   \<and> call_reset V B c self w = Some (reset (V c) (B (V c)) self w)
   \<and> get_horizon V c = Some (horizon (V c))
   \<and> get_observation_space V B c self = Some (observation_space (B (V c)) self)
   \<and> get_context_space V B c self = Some (context_space (B (V c)) self)
   \<and> class_constants V c = Some (V c)
   \<and> (name \<in> {''__init__'', ''step'', ''reset'', ''horizon'', ''observation_space'',
          ''context_space''} \<longrightarrow>
        getattr V c name = Some (Function AntGatherEnv name))
   \<and> (V c = V c' \<longrightarrow>
        call_new V B c = call_new V B c'
        \<and> call_step V B c = call_step V B c'
        \<and> call_reset V B c = call_reset V B c'
        \<and> get_horizon V c = get_horizon V c'
        \<and> get_observation_space V B c = get_observation_space V B c'
        \<and> get_context_space V B c = get_context_space V B c')"
proof -
  have same: "call_new V B c = call_new V B c'"
    "call_step V B c = call_step V B c'"
    "call_reset V B c = call_reset V B c'"
    "get_horizon V c = get_horizon V c'"
    "get_observation_space V B c = get_observation_space V B c'"
    "get_context_space V B c = get_context_space V B c'"
    if "V c = V c'"
    using that by (simp_all add: fun_eq_iff calls)
  show ?thesis
    by (intro conjI impI calls class_constants_own getattr_method same; assumption)
qed

theorem variants_share_methods_witness:
  "(\<lambda>_. constants AntGatherEnv) SwimmerGatherEnv = (\<lambda>_. constants AntGatherEnv) SnakeGatherEnv
   \<and> call_step (\<lambda>_. constants AntGatherEnv) (\<lambda>K. sample_base 10 [1 :: int] False) SwimmerGatherEnv
       = call_step (\<lambda>_. constants AntGatherEnv) (\<lambda>K. sample_base 10 [1 :: int] False) SnakeGatherEnv
   \<and> get_horizon (\<lambda>_. constants AntGatherEnv) SwimmerGatherEnv = Some 500
   \<and> get_horizon (\<lambda>_. constants AntGatherEnv) SnakeGatherEnv
       = get_horizon (\<lambda>_. constants AntGatherEnv) SwimmerGatherEnv
   \<and> get_horizon constants SnakeGatherEnv = Some 800
   \<and> ''step'' \<in> {''__init__'', ''step'', ''reset'', ''horizon'', ''observation_space'',
        ''context_space''}
   \<and> getattr constants SnakeGatherEnv ''step'' = Some (Function AntGatherEnv ''step'')"
  using
    variants_share_methods [where V = "\<lambda>_. constants AntGatherEnv"
      and B = "\<lambda>K. sample_base 10 [1 :: int] False" and c = SwimmerGatherEnv
      and c' = SnakeGatherEnv and name = "''step''" and pos = "[]" and kw = Map.empty
      and self = "sample_env 0" and a = "()" and w = True]
    variants_share_methods [where V = constants
      and B = "\<lambda>K. sample_base 10 [1 :: int] False" and c = SnakeGatherEnv
      and c' = SnakeGatherEnv and name = "''step''" and pos = "[]" and kw = Map.empty
      and self = "sample_env 0" and a = "()" and w = True]
  by (auto simp: horizon_def)

text \<open>
  C7: a constructor call that Python can bind reaches the base class's constructor with
  the extra positional arguments as its positional arguments and, under each of the ten
  parameter names, the value the caller supplied or else the wrapper's default; every
  other keyword is passed on as the caller gave it. A call that cannot be bound raises.
\<close>

theorem init_forwards:
  "case bind_init pos kw of
     Inl e \<Rightarrow> new G pos kw = Inl e
   | Inr l \<Rightarrow>
       (\<exists>k. super_init_call l = Inr (drop 10 pos, k)
          \<and> new G pos kw =
              Inr \<lparr>base = super_init G (drop 10 pos) k, step_number = 0, current_context = None\<rparr>
          \<and> k ''n_apples'' = Some (or_default (supplied pos kw 0 ''n_apples'') (PyInt 8))
          \<and> k ''n_bombs'' = Some (or_default (supplied pos kw 1 ''n_bombs'') (PyInt 8))
          \<and> k ''activity_range'' =
              Some (or_default (supplied pos kw 2 ''activity_range'') (PyFloat (Finite 5 1)))
          \<and> k ''robot_object_spacing'' =
              Some (or_default (supplied pos kw 3 ''robot_object_spacing'') (PyFloat (Finite 1 1)))
          \<and> k ''catch_range'' =
              Some (or_default (supplied pos kw 4 ''catch_range'') (PyFloat (Finite 1 0)))
          \<and> k ''n_bins'' = Some (or_default (supplied pos kw 5 ''n_bins'') (PyInt 10))
          \<and> k ''sensor_range'' =
              Some (or_default (supplied pos kw 6 ''sensor_range'') (PyFloat (Finite 3 1)))
          \<and> k ''sensor_span'' =
              Some (or_default (supplied pos kw 7 ''sensor_span'')
                (PyFloat (Finite 884279719003555 (- 47))))
          \<and> k ''coef_inner_rew'' =
              Some (or_default (supplied pos kw 8 ''coef_inner_rew'') (PyFloat (Finite 0 0)))
          \<and> k ''dying_cost'' = Some (or_default (supplied pos kw 9 ''dying_cost'') (PyInt 0))
          \<and> (\<forall>n. n \<notin> set param_names \<longrightarrow> k n = kw n))"
proof (cases "bind_init pos kw")
  case (Inl e)
  then show ?thesis by (simp add: new_def)
next
  case (Inr l)
  note call = super_init_call_bound [OF Inr]
  have fields:
    "n_apples l = param pos kw 0 (PyInt 8)"
    "n_bombs l = param pos kw 1 (PyInt 8)"
    "activity_range l = param pos kw 2 (PyFloat (Finite 5 1))"
    "robot_object_spacing l = param pos kw 3 (PyFloat (Finite 1 1))"
    "catch_range l = param pos kw 4 (PyFloat (Finite 1 0))"
    "n_bins l = param pos kw 5 (PyInt 10)"
    "sensor_range l = param pos kw 6 (PyFloat (Finite 3 1))"
    "sensor_span l = param pos kw 7 (PyFloat (Finite 884279719003555 (- 47)))"
    "coef_inner_rew l = param pos kw 8 (PyFloat (Finite 0 0))"
    "dying_cost l = param pos kw 9 (PyInt 0)"
    "args l = drop 10 pos"
    using Inr by (auto simp: bind_init_def math_pi_def split: if_splits)
  have other: "n \<notin> set param_names \<Longrightarrow> kwargs l n = kw n" for n
    by (simp add: bind_init_kwargs [OF Inr])
  let ?k = "(kwargs l)(
          ''n_apples'' \<mapsto> n_apples l,
          ''n_bombs'' \<mapsto> n_bombs l,
          ''activity_range'' \<mapsto> activity_range l,
          ''robot_object_spacing'' \<mapsto> robot_object_spacing l,
          ''catch_range'' \<mapsto> catch_range l,
          ''n_bins'' \<mapsto> n_bins l,
          ''sensor_range'' \<mapsto> sensor_range l,
          ''sensor_span'' \<mapsto> sensor_span l,
          ''coef_inner_rew'' \<mapsto> coef_inner_rew l,
          ''dying_cost'' \<mapsto> dying_cost l)"
  have 1: "super_init_call l = Inr (drop 10 pos, ?k)"
    using call by (simp only: fields(11))
  have 2: "new G pos kw =
      Inr \<lparr>base = super_init G (drop 10 pos) ?k, step_number = 0, current_context = None\<rparr>"
    by (simp add: new_def Inr init_def 1)
  have 3:
    "?k ''n_apples'' = Some (or_default (supplied pos kw 0 ''n_apples'') (PyInt 8))"
    "?k ''n_bombs'' = Some (or_default (supplied pos kw 1 ''n_bombs'') (PyInt 8))"
    "?k ''activity_range'' =
       Some (or_default (supplied pos kw 2 ''activity_range'') (PyFloat (Finite 5 1)))"
    "?k ''robot_object_spacing'' =
       Some (or_default (supplied pos kw 3 ''robot_object_spacing'') (PyFloat (Finite 1 1)))"
    "?k ''catch_range'' =
       Some (or_default (supplied pos kw 4 ''catch_range'') (PyFloat (Finite 1 0)))"
    "?k ''n_bins'' = Some (or_default (supplied pos kw 5 ''n_bins'') (PyInt 10))"
    "?k ''sensor_range'' =
       Some (or_default (supplied pos kw 6 ''sensor_range'') (PyFloat (Finite 3 1)))"
    "?k ''sensor_span'' =
       Some (or_default (supplied pos kw 7 ''sensor_span'')
         (PyFloat (Finite 884279719003555 (- 47))))"
    "?k ''coef_inner_rew'' =
       Some (or_default (supplied pos kw 8 ''coef_inner_rew'') (PyFloat (Finite 0 0)))"
    "?k ''dying_cost'' = Some (or_default (supplied pos kw 9 ''dying_cost'') (PyInt 0))"
    by (simp_all add: fields param_def supplied_def or_default_def param_names_def)
  have 4: "\<forall>n. n \<notin> set param_names \<longrightarrow> ?k n = kw n"
  proof (intro allI impI)
    fix n
    assume n: "n \<notin> set param_names"
    then have "n \<noteq> ''n_apples''" "n \<noteq> ''n_bombs''" "n \<noteq> ''activity_range''"
      "n \<noteq> ''robot_object_spacing''" "n \<noteq> ''catch_range''" "n \<noteq> ''n_bins''"
      "n \<noteq> ''sensor_range''" "n \<noteq> ''sensor_span''" "n \<noteq> ''coef_inner_rew''"
      "n \<noteq> ''dying_cost''"
      by (auto simp: param_names_def)
    then show "?k n = kw n"
      by (simp add: other [OF n])
  qed
  show ?thesis
    unfolding Inr sum.case
    by (rule exI [of _ ?k]) (intro conjI 1 2 3 4)
qed

theorem init_forwards_witness:
  "\<exists>k. new (sample_base 5 ([] :: int list) False) [PyInt 3] sample_kw =
          Inr \<lparr>base = super_init (sample_base 5 ([] :: int list) False) [] k,
               step_number = 0, current_context = None\<rparr>
     \<and> k ''n_apples'' = Some (PyInt 3)
     \<and> k ''n_bombs'' = Some (PyInt 8)
     \<and> k ''n_bins'' = Some (PyInt 5)
     \<and> k ''sensor_span'' = Some (PyFloat (Finite 884279719003555 (- 47)))
     \<and> k ''render'' = Some (PyObj ())"
proof -
  have "\<exists>l. bind_init [PyInt 3] sample_kw = Inr l"
    by (simp add: bind_init_def sample_kw_def param_names_def)
  then obtain l where l: "bind_init [PyInt 3] sample_kw = Inr l" ..
  have r: "''render'' \<notin> set param_names"
    by (simp add: param_names_def)
  show ?thesis
    using init_forwards [where pos = "[PyInt 3]" and kw = sample_kw
        and G = "sample_base 5 ([] :: int list) False"] r
    unfolding l sum.case
    by (auto simp: supplied_def or_default_def sample_kw_def)
qed

end
